theory Spec2Isabelle
  imports Complex_Main
begin

section \<open>Python strings\<close>

text \<open>
  A string is a list of characters, and a character is a code point below 256 (the
  Latin-1 range); text with higher code points is outside the model. On these strings
  \<open>lower\<close> is \<^verbatim>\<open>str.lower\<close>: it maps A to Z, and the capitals from U+00C0 to U+00DE but
  the multiplication sign U+00D7, to the letter 32 places on, and nothing else. \<open>isspace\<close>
  is \<^verbatim>\<open>str.isspace\<close> on one character: the controls 0x09 to 0x0D and 0x1C to 0x1F, the
  space, the next-line control U+0085 and the no-break space U+00A0. \<open>strip\<close> is
  \<^verbatim>\<open>str.strip\<close> with no argument, \<open>str_contains sub s\<close> is \<^verbatim>\<open>sub in s\<close>, and
  \<open>replace_space\<close> is \<^verbatim>\<open>s.replace(' ', '+')\<close>.
\<close>

definition sq :: string where
  "sq = [CHR 0x27]"

definition dq :: string where
  "dq = [CHR 0x22]"

definition upper_letters :: string where
  "upper_letters =
     ''ABCDEFGHIJKLMNOPQRSTUVWXYZ''
     @ [CHR 0xC0, CHR 0xC1, CHR 0xC2, CHR 0xC3, CHR 0xC4, CHR 0xC5, CHR 0xC6, CHR 0xC7,
        CHR 0xC8, CHR 0xC9, CHR 0xCA, CHR 0xCB, CHR 0xCC, CHR 0xCD, CHR 0xCE, CHR 0xCF,
        CHR 0xD0, CHR 0xD1, CHR 0xD2, CHR 0xD3, CHR 0xD4, CHR 0xD5, CHR 0xD6,
        CHR 0xD8, CHR 0xD9, CHR 0xDA, CHR 0xDB, CHR 0xDC, CHR 0xDD, CHR 0xDE]"

definition lower_letters :: string where
  "lower_letters =
     ''abcdefghijklmnopqrstuvwxyz''
     @ [CHR 0xE0, CHR 0xE1, CHR 0xE2, CHR 0xE3, CHR 0xE4, CHR 0xE5, CHR 0xE6, CHR 0xE7,
        CHR 0xE8, CHR 0xE9, CHR 0xEA, CHR 0xEB, CHR 0xEC, CHR 0xED, CHR 0xEE, CHR 0xEF,
        CHR 0xF0, CHR 0xF1, CHR 0xF2, CHR 0xF3, CHR 0xF4, CHR 0xF5, CHR 0xF6,
        CHR 0xF8, CHR 0xF9, CHR 0xFA, CHR 0xFB, CHR 0xFC, CHR 0xFD, CHR 0xFE]"

definition lower_char :: "char \<Rightarrow> char" where
  "lower_char c =
     (case map_of (zip upper_letters lower_letters) c of
        None \<Rightarrow> c
      | Some d \<Rightarrow> d)"

definition lower :: "string \<Rightarrow> string" where
  "lower s = map lower_char s"

definition isspace :: "char \<Rightarrow> bool" where
  "isspace c =
     (c \<in> {CHR 0x09, CHR 0x0A, CHR 0x0B, CHR 0x0C, CHR 0x0D,
            CHR 0x1C, CHR 0x1D, CHR 0x1E, CHR 0x1F, CHR 0x20, CHR 0x85, CHR 0xA0})"

definition strip :: "string \<Rightarrow> string" where
  "strip s = rev (dropWhile isspace (rev (dropWhile isspace s)))"

fun str_contains :: "string \<Rightarrow> string \<Rightarrow> bool" where
  "str_contains sub [] = (sub = [])"
| "str_contains sub (c # cs) = (take (length sub) (c # cs) = sub \<or> str_contains sub cs)"

definition replace_space :: "string \<Rightarrow> string" where
  "replace_space s = map (\<lambda>c. if c = CHR '' '' then CHR ''+'' else c) s"

text \<open>
  The test \<^verbatim>\<open>if profile:\<close> on an optional string: \<^verbatim>\<open>None\<close> and the empty string are
  both false. \<open>truthy\<close> returns the string when the test succeeds.
\<close>

definition truthy :: "string option \<Rightarrow> string option" where
  "truthy x = (case x of None \<Rightarrow> None | Some s \<Rightarrow> if s = [] then None else Some s)"

section \<open>Data model of \<^verbatim>\<open>workflow_manager.py\<close>\<close>

datatype WorkflowState =
    IDLE
  | BROWSER_STARTING
  | PROFILE_SELECTION
  | BROWSER_READY
  | SEARCHING
  | VIDEO_PLAYING
  | APP_OPENING

record Workflow =
  name :: string
  steps :: "string list"
  current_step :: nat
  data :: "(string \<times> string) list"
  created_at :: real

text \<open>A tab as \<^verbatim>\<open>BrowserTabManager.get_all_tabs\<close> returns it.\<close>

record tab =
  title :: string
  window_id :: string
  browser :: string

text \<open>
  The fields of \<^verbatim>\<open>WorkflowManager\<close>. \<open>context_task\<close> is \<^verbatim>\<open>self.context.current_task\<close>, the
  only part of the Context Store the manager writes. \<open>tab_manager\<close> tells whether a tab
  manager was supplied (the dispatcher passes \<^verbatim>\<open>None\<close> when its construction failed).
  Process handles are numbers.
\<close>

record manager =
  context_task :: "string option"
  tab_manager :: bool
  state :: WorkflowState
  current_workflow :: "Workflow option"
  waiting_for :: "string option"
  browser_process :: "nat option"
  selected_profile :: "string option"
  current_url :: "string option"
  state_timeout :: real
  state_started_at :: "real option"

text \<open>
  The world outside the manager: the wall clock that \<^verbatim>\<open>time.time()\<close> reads (an exact
  number of seconds here, a float in the source) and the trace of the actions taken on
  the operating system, oldest first. Logging is left out.
\<close>

datatype effect =
    Popen_shell string
  | Popen_argv "string list"
  | Terminate nat
  | Webbrowser_open string

record system =
  clock :: real
  effects :: "effect list"

text \<open>
  What \<^verbatim>\<open>subprocess.Popen\<close> does at a call. \<open>Raised e\<close>: it raises, \<open>e\<close> being the text of
  the exception. \<open>Spawned h up\<close>: it returns the handle \<open>h\<close>, and \<open>up\<close> tells whether the
  browser came up. Chrome is started through a shell (\<^verbatim>\<open>shell=True\<close>): the handle is the
  shell's, and it is returned also when the shell cannot find or start Chrome (\<open>up\<close> is
  false and the shell exits with status 127). The other browsers are started without a
  shell, and there a program that is missing makes \<^verbatim>\<open>Popen\<close> raise. The handlers never
  look at \<open>up\<close>: nothing in the source polls the process.
\<close>

datatype launch =
    Raised string
  | Spawned nat bool

definition sleep :: "real \<Rightarrow> system \<Rightarrow> system" where
  "sleep d w = w\<lparr>clock := clock w + d\<rparr>"

definition emit :: "effect \<Rightarrow> system \<Rightarrow> system" where
  "emit e w = w\<lparr>effects := effects w @ [e]\<rparr>"

section \<open>The state machine\<close>

text \<open>
  Every method takes the manager and the world and returns its value with both. What the
  operating system answers at a call is an argument of the method: \<open>launch\<close> is the outcome
  of \<^verbatim>\<open>subprocess.Popen\<close>, \<open>term_ok\<close> tells whether \<^verbatim>\<open>terminate()\<close> returned without raising, and
  \<open>tabs\<close> is what \<^verbatim>\<open>get_all_tabs()\<close> returns.
\<close>

definition WorkflowManager_init :: "bool \<Rightarrow> manager" where
  "WorkflowManager_init tm =
     \<lparr>context_task = None, tab_manager = tm, state = IDLE, current_workflow = None,
      waiting_for = None, browser_process = None, selected_profile = None,
      current_url = None, state_timeout = 10, state_started_at = None\<rparr>"

definition start_workflow :: "string \<Rightarrow> string list \<Rightarrow> manager \<times> system \<Rightarrow> manager \<times> system" where
  "start_workflow workflow_name stps s =
     (case s of (m, w) \<Rightarrow>
        (m\<lparr>current_workflow :=
             Some \<lparr>name = workflow_name, steps = stps, current_step = 0, data = [],
                   created_at = clock w\<rparr>\<rparr>, w))"

definition cancel_workflow :: "manager \<times> system \<Rightarrow> manager \<times> system" where
  "cancel_workflow s =
     (case s of (m, w) \<Rightarrow> (m\<lparr>current_workflow := None, state := IDLE, waiting_for := None\<rparr>, w))"

definition set_state :: "WorkflowState \<Rightarrow> string option \<Rightarrow> manager \<times> system \<Rightarrow> manager \<times> system" where
  "set_state new_state hint s =
     (case s of (m, w) \<Rightarrow>
        (m\<lparr>state := new_state, waiting_for := hint, state_started_at := Some (clock w)\<rparr>, w))"

text \<open>
  \<^verbatim>\<open>if self.state_started_at:\<close> is false for \<^verbatim>\<open>None\<close> and for the float zero.
\<close>

definition is_state_expired :: "manager \<times> system \<Rightarrow> bool \<times> manager \<times> system" where
  "is_state_expired s =
     (case s of (m, w) \<Rightarrow>
        (case state_started_at m of
           None \<Rightarrow> (False, m, w)
         | Some t \<Rightarrow> if t \<noteq> 0 then (clock w - t > state_timeout m, m, w) else (False, m, w)))"

text \<open>
  The alias table, written out twice in the source with the same entries (in
  \<^verbatim>\<open>handle_profile_selection\<close> and in \<^verbatim>\<open>_get_chrome_profile\<close>). No directory in it is empty,
  so the test \<^verbatim>\<open>if not profile_dir\<close> is the test for a missing key.
\<close>

definition profile_map :: "string \<rightharpoonup> string" where
  "profile_map = map_of
     [(''default'', ''Default''),
      (''me'', ''Default''),
      (''profile 1'', ''Profile 1''),
      (''profile1'', ''Profile 1''),
      (''1'', ''Profile 1''),
      (''amaan'', ''Profile 1''),
      (''profile 2'', ''Profile 2''),
      (''profile2'', ''Profile 2''),
      (''2'', ''Profile 2''),
      (''work'', ''Profile 2'')]"

definition get_chrome_profile :: "string \<Rightarrow> string" where
  "get_chrome_profile profile_name =
     (case profile_map (lower profile_name) of None \<Rightarrow> ''Default'' | Some d \<Rightarrow> d)"

definition chrome_cmd :: "string \<Rightarrow> string" where
  "chrome_cmd profile_dir = ''google-chrome --profile-directory='' @ dq @ profile_dir @ dq"

definition handle_browser_opening ::
  "string \<Rightarrow> string option \<Rightarrow> launch \<Rightarrow> manager \<times> system \<Rightarrow> (bool \<times> string) \<times> manager \<times> system" where
  "handle_browser_opening browser_name profile launch s =
     (case set_state BROWSER_STARTING (Some ''profile selection'') s of (m1, w1) \<Rightarrow>
      let m2 = m1\<lparr>context_task := Some (''opening_'' @ browser_name)\<rparr> in
      if lower browser_name = ''chrome'' then
        (let cmd = (case truthy profile of
                      Some p \<Rightarrow> chrome_cmd (get_chrome_profile p)
                    | None \<Rightarrow> ''google-chrome'');
             w2 = emit (Popen_shell cmd) w1
         in case launch of
              Spawned h up \<Rightarrow>
                (let m3 = m2\<lparr>browser_process := Some h\<rparr>;
                     w3 = sleep 2 w2
                 in case truthy profile of
                      Some p \<Rightarrow>
                        ((True, ''Chrome opened with '' @ p @ '' profile''),
                         set_state BROWSER_READY None (m3\<lparr>selected_profile := Some p\<rparr>, w3))
                    | None \<Rightarrow>
                        ((True,
                          ''Chrome is opening. Which profile? Say '' @ sq @ ''Profile 1'' @ sq
                            @ '' or '' @ sq @ ''Amaan'' @ sq),
                         set_state PROFILE_SELECTION
                           (Some (''profile name (e.g., '' @ sq @ ''profile 1'' @ sq @ '', ''
                                    @ sq @ ''amaan'' @ sq @ '')''))
                           (m3, w3)))
            | Raised e \<Rightarrow>
                ((False, ''Failed to open Chrome: '' @ e), set_state IDLE None (m2, w2)))
      else
        (let cmd = lower browser_name;
             w2 = emit (Popen_argv [cmd]) w1
         in case launch of
              Spawned h up \<Rightarrow>
                ((True, browser_name @ '' opened''),
                 set_state BROWSER_READY None (m2, sleep 2 w2))
            | Raised e \<Rightarrow>
                ((False, ''Failed to open '' @ browser_name), set_state IDLE None (m2, w2))))"

definition handle_profile_selection ::
  "string \<Rightarrow> bool \<Rightarrow> launch \<Rightarrow> manager \<times> system \<Rightarrow> (bool \<times> string) \<times> manager \<times> system" where
  "handle_profile_selection profile_input0 term_ok launch s =
     (case s of (m, w) \<Rightarrow>
      if state m \<noteq> PROFILE_SELECTION then ((False, ''Not in profile selection mode''), m, w)
      else
        (let profile_input = strip (lower profile_input0) in
         case profile_map profile_input of
           None \<Rightarrow>
             ((False,
               ''Unknown profile: '' @ profile_input @ ''. Try '' @ sq @ ''Profile 1'' @ sq
                 @ '', '' @ sq @ ''Amaan'' @ sq @ '', or '' @ sq @ ''Profile 2'' @ sq),
              m, w)
         | Some profile_dir \<Rightarrow>
             (let w1 = (case browser_process m of
                          None \<Rightarrow> w
                        | Some h \<Rightarrow>
                            if term_ok then sleep (1 / 2) (emit (Terminate h) w)
                            else emit (Terminate h) w);
                  w2 = emit (Popen_shell (chrome_cmd profile_dir)) w1
              in case launch of
                   Spawned h up \<Rightarrow>
                     ((True, ''Opened '' @ profile_input @ '' profile. What would you like to do?''),
                      set_state BROWSER_READY None
                        (m\<lparr>browser_process := Some h, selected_profile := Some profile_input\<rparr>,
                         sleep 2 w2))
                 | Raised e \<Rightarrow>
                     ((False, ''Failed to open profile: '' @ e), set_state IDLE None (m, w2)))))"

text \<open>
  The table \<^verbatim>\<open>WEBSITE_URLS\<close> of \<^verbatim>\<open>constants.py\<close>. No address in it is empty, so the test
  \<^verbatim>\<open>if not url\<close> is the test for a missing key.
\<close>

definition WEBSITE_URLS :: "string \<rightharpoonup> string" where
  "WEBSITE_URLS = map_of
     [(''youtube'', ''https://youtube.com''),
      (''gmail'', ''https://gmail.com''),
      (''google'', ''https://google.com''),
      (''facebook'', ''https://facebook.com''),
      (''twitter'', ''https://twitter.com''),
      (''github'', ''https://github.com''),
      (''reddit'', ''https://reddit.com''),
      (''linkedin'', ''https://linkedin.com''),
      (''whatsapp'', ''https://web.whatsapp.com''),
      (''netflix'', ''https://netflix.com''),
      (''stackoverflow'', ''https://stackoverflow.com'')]"

definition handle_website_opening ::
  "string \<Rightarrow> tab list \<Rightarrow> manager \<times> system \<Rightarrow> (bool \<times> string) \<times> manager \<times> system" where
  "handle_website_opening website_name tabs s =
     (case s of (m, w) \<Rightarrow>
      if state m \<notin> {BROWSER_READY, IDLE} \<and> (\<not> tab_manager m \<or> tabs = []) then
        ((False, ''No browser is open. Say '' @ sq @ ''Open Chrome'' @ sq @ '' first''), m, w)
      else
        (let url = (case WEBSITE_URLS (lower website_name) of
                      Some u \<Rightarrow> u
                    | None \<Rightarrow> ''https://www.google.com/search?q='' @ website_name)
         in ((True, ''Opening '' @ website_name),
             m\<lparr>current_url := Some url\<rparr>, emit (Webbrowser_open url) w)))"

text \<open>
  The loop of \<^verbatim>\<open>handle_search_query\<close> over the tabs: it stops at the first tab whose
  lower-cased title contains \<^verbatim>\<open>youtube\<close> or \<^verbatim>\<open>google\<close>, and leaves \<open>platform\<close> as it was
  when no tab does.
\<close>

fun scan_tabs :: "tab list \<Rightarrow> string option \<Rightarrow> string option" where
  "scan_tabs [] platform = platform"
| "scan_tabs (t # ts) platform =
     (if str_contains ''youtube'' (lower (title t)) then Some ''youtube''
      else if str_contains ''google'' (lower (title t)) then Some ''google''
      else scan_tabs ts platform)"

definition handle_search_query ::
  "string \<Rightarrow> string option \<Rightarrow> tab list \<Rightarrow> manager \<times> system \<Rightarrow> (bool \<times> string) \<times> manager \<times> system" where
  "handle_search_query query platform0 tabs s =
     (case s of (m, w) \<Rightarrow>
      let platform = (case truthy platform0 of
                        Some p \<Rightarrow> platform0
                      | None \<Rightarrow> if tab_manager m then scan_tabs tabs platform0 else platform0);
          url = (if platform = Some ''youtube''
                 then ''https://www.youtube.com/results?search_query='' @ replace_space query
                 else ''https://www.google.com/search?q='' @ replace_space query)
      in ((True, ''Searching for '' @ query), m, emit (Webbrowser_open url) w))"

section \<open>Runs of the machine\<close>

text \<open>
  A call of one of the manager's operations, with what the operating system answers to
  it. \<open>set_state\<close> is the helper the handlers call and is no operation of its own;
  \<^verbatim>\<open>get_current_state_info\<close> and \<^verbatim>\<open>get_help_message\<close> only read the manager and are
  left out.
\<close>

datatype call =
    Start_workflow string "string list"
  | Cancel_workflow
  | Is_state_expired
  | Handle_browser_opening string "string option" launch
  | Handle_profile_selection string bool launch
  | Handle_website_opening string "tab list"
  | Handle_search_query string "string option" "tab list"

fun step :: "call \<Rightarrow> manager \<times> system \<Rightarrow> manager \<times> system" where
  "step (Start_workflow n st) s = start_workflow n st s"
| "step Cancel_workflow s = cancel_workflow s"
| "step Is_state_expired s = snd (is_state_expired s)"
| "step (Handle_browser_opening b p l) s = snd (handle_browser_opening b p l s)"
| "step (Handle_profile_selection i k l) s = snd (handle_profile_selection i k l s)"
| "step (Handle_website_opening n ts) s = snd (handle_website_opening n ts s)"
| "step (Handle_search_query q p ts) s = snd (handle_search_query q p ts s)"

text \<open>
  The states the machine can be in: it is constructed at some time, time passes between
  calls, and each call is one step.
\<close>

inductive reachable :: "manager \<times> system \<Rightarrow> bool" where
  constructed: "reachable (WorkflowManager_init tm, \<lparr>clock = t, effects = []\<rparr>)"
| time_passes: "reachable (m, w) \<Longrightarrow> 0 \<le> d \<Longrightarrow> reachable (m, sleep d w)"
| called: "reachable s \<Longrightarrow> reachable (step c s)"

section \<open>Reference definitions and scenarios\<close>

text \<open>
  The platform a search infers from the open tabs, as the specification words it: the
  tabs are looked at in the order the Tab Directory returns them, the first one whose
  title mentions YouTube or Google decides, and YouTube is tested first.
\<close>

definition inferred_platform :: "tab list \<Rightarrow> string option" where
  "inferred_platform tabs =
     (case find (\<lambda>t. str_contains ''youtube'' (lower (title t))
                     \<or> str_contains ''google'' (lower (title t))) tabs of
        None \<Rightarrow> None
      | Some t \<Rightarrow>
          Some (if str_contains ''youtube'' (lower (title t)) then ''youtube'' else ''google''))"

text \<open>The invariant that ties the hint \<open>waiting_for\<close> to the state.\<close>

definition hint_ok :: "manager \<Rightarrow> bool" where
  "hint_ok m =
     ((state m = PROFILE_SELECTION \<longrightarrow> waiting_for m \<noteq> None)
      \<and> (state m = IDLE \<longrightarrow> waiting_for m = None))"

text \<open>
  Three moments of one run: the manager just constructed with a tab manager; after
  "open chrome" with no profile, answered by a successful launch; and one minute later,
  nothing having been said.
\<close>

definition at_startup :: "manager \<times> system" where
  "at_startup = (WorkflowManager_init True, \<lparr>clock = 1000, effects = []\<rparr>)"

definition awaiting_profile :: "manager \<times> system" where
  "awaiting_profile = step (Handle_browser_opening ''chrome'' None (Spawned 1 True)) at_startup"

definition stale_selection :: "manager \<times> system" where
  "stale_selection = (fst awaiting_profile, sleep 60 (snd awaiting_profile))"

section \<open>Facts about the helpers\<close>

lemma lower_chrome: "lower ''chrome'' = ''chrome''"
  by (simp add: lower_def lower_char_def upper_letters_def lower_letters_def)

lemma lower_latin1: "lower [CHR 0xC9, CHR 0xD7, CHR ''Z'', CHR 0xDF] = [CHR 0xE9, CHR 0xD7, CHR ''z'', CHR 0xDF]"
  by (simp add: lower_def lower_char_def upper_letters_def lower_letters_def)

lemma strip_latin1: "strip ([CHR 0xA0] @ ''work'' @ [CHR 0x85]) = ''work''"
  by (simp add: strip_def isspace_def)




lemma set_state_fields:
  "state (fst (set_state ns hint s)) = ns"
  "waiting_for (fst (set_state ns hint s)) = hint"
  "state_timeout (fst (set_state ns hint s)) = state_timeout (fst s)"
  "state_started_at (fst (set_state ns hint s)) = Some (clock (snd s))"
  "snd (set_state ns hint s) = snd s"
  by (simp_all add: set_state_def split: prod.splits)

lemma replace_space_facts:
  "length (replace_space q) = length q"
  "CHR '' '' \<notin> set (replace_space q)"
  "filter (\<lambda>c. c \<noteq> CHR ''+'') (replace_space q)
     = filter (\<lambda>c. c \<noteq> CHR '' '' \<and> c \<noteq> CHR ''+'') q"
  by (induction q) (auto simp: replace_space_def)

lemma scan_tabs_inferred:
  "scan_tabs tabs pf = (case inferred_platform tabs of None \<Rightarrow> pf | Some x \<Rightarrow> Some x)"
  by (induction tabs) (simp_all add: inferred_platform_def)

lemma search_platform:
  "(case truthy pf of
      Some p \<Rightarrow> pf
    | None \<Rightarrow> if tab_manager m then scan_tabs tabs pf else pf) = Some ''youtube''
   \<longleftrightarrow> pf = Some ''youtube''
       \<or> (truthy pf = None \<and> tab_manager m \<and> inferred_platform tabs = Some ''youtube'')"
  by (auto simp: scan_tabs_inferred truthy_def split: option.splits if_splits)

subsection \<open>The scenarios\<close>

lemma awaiting_profile_eq:
  "awaiting_profile =
     (\<lparr>context_task = Some ''opening_chrome'', tab_manager = True, state = PROFILE_SELECTION,
       current_workflow = None,
       waiting_for = Some (''profile name (e.g., '' @ sq @ ''profile 1'' @ sq @ '', ''
                             @ sq @ ''amaan'' @ sq @ '')''),
       browser_process = Some 1, selected_profile = None, current_url = None,
       state_timeout = 10, state_started_at = Some 1002\<rparr>,
      \<lparr>clock = 1002, effects = [Popen_shell ''google-chrome'']\<rparr>)"
  by (simp add: awaiting_profile_def at_startup_def handle_browser_opening_def lower_chrome
        truthy_def set_state_def emit_def sleep_def WorkflowManager_init_def Let_def)

lemma at_startup_idle: "state (fst at_startup) = IDLE"
  by (simp add: at_startup_def WorkflowManager_init_def)

lemma awaiting_profile_state: "state (fst awaiting_profile) = PROFILE_SELECTION"
  by (simp add: awaiting_profile_eq)

lemma reachable_at_startup: "reachable at_startup"
  unfolding at_startup_def by (rule reachable.constructed)

lemma reachable_awaiting_profile: "reachable awaiting_profile"
  unfolding awaiting_profile_def by (rule reachable.called [OF reachable_at_startup])

lemma reachable_stale_selection: "reachable stale_selection"
  unfolding stale_selection_def
  by (rule reachable.time_passes) (simp_all add: reachable_awaiting_profile)

subsection \<open>Every step keeps the invariant and the timeout\<close>

lemma browser_opening_ok: "hint_ok (fst (snd (handle_browser_opening b p l s)))"
  by (simp add: handle_browser_opening_def hint_ok_def set_state_fields Let_def
        split: prod.splits launch.splits option.splits)

lemma profile_selection_ok:
  "hint_ok (fst s) \<Longrightarrow> hint_ok (fst (snd (handle_profile_selection i k l s)))"
  by (cases s)
     (auto simp: handle_profile_selection_def hint_ok_def set_state_fields Let_def
        split: launch.splits option.splits)

lemma step_ok: "hint_ok (fst s) \<Longrightarrow> hint_ok (fst (step c s))"
proof (cases c)
  case (Handle_browser_opening b p l)
  then show ?thesis by (simp add: browser_opening_ok)
next
  case (Handle_profile_selection i k l)
  assume "hint_ok (fst s)"
  with Handle_profile_selection show ?thesis by (simp add: profile_selection_ok)
qed (auto simp: hint_ok_def start_workflow_def cancel_workflow_def is_state_expired_def
       handle_website_opening_def handle_search_query_def Let_def
       split: prod.splits option.splits)

lemma reachable_ok: "reachable s \<Longrightarrow> hint_ok (fst s)"
proof (induction rule: reachable.induct)
  case (constructed tm t)
  show ?case by (simp add: hint_ok_def WorkflowManager_init_def)
next
  case (time_passes m w d)
  then show ?case by simp
next
  case (called s c)
  then show ?case by (simp add: step_ok)
qed

lemma step_timeout: "state_timeout (fst (step c s)) = state_timeout (fst s)"
  by (cases c; cases s)
     (auto simp: start_workflow_def cancel_workflow_def is_state_expired_def
        handle_browser_opening_def handle_profile_selection_def handle_website_opening_def
        handle_search_query_def set_state_def Let_def
        split: launch.splits option.splits)

lemma reachable_timeout: "reachable s \<Longrightarrow> state_timeout (fst s) = 10"
  by (induction rule: reachable.induct) (simp_all add: WorkflowManager_init_def step_timeout)

lemma fresh_after_set_state:
  "0 \<le> state_timeout (fst s) \<Longrightarrow> \<not> fst (is_state_expired (set_state ns hint s))"
  by (cases s) (simp add: is_state_expired_def set_state_def)

lemma is_state_expired_reads_only: "snd (is_state_expired s) = s"
  by (cases s) (simp add: is_state_expired_def split: option.splits)

lemma expired_iff:
  "reachable s \<Longrightarrow>
   fst (is_state_expired s)
     \<longleftrightarrow> (\<exists>t. state_started_at (fst s) = Some t \<and> t \<noteq> 0 \<and> 10 < clock (snd s) - t)"
  using reachable_timeout [of s]
  by (cases s) (auto simp: is_state_expired_def split: option.splits)

lemma browser_opening_chrome_outcomes:
  "case handle_browser_opening ''chrome'' profile launch (m, w) of
     ((ok, msg), m', w') \<Rightarrow>
       (case launch of
          Raised e \<Rightarrow>
            state m' = IDLE \<and> waiting_for m' = None \<and> \<not> ok
            \<and> msg = ''Failed to open Chrome: '' @ e
        | Spawned h up \<Rightarrow>
            (case truthy profile of
               None \<Rightarrow>
                 state m' = PROFILE_SELECTION \<and> waiting_for m' \<noteq> None \<and> ok
                 \<and> msg = ''Chrome is opening. Which profile? Say '' @ sq @ ''Profile 1'' @ sq
                           @ '' or '' @ sq @ ''Amaan'' @ sq
             | Some p \<Rightarrow>
                 state m' = BROWSER_READY \<and> selected_profile m' = Some p \<and> ok
                 \<and> msg = ''Chrome opened with '' @ p @ '' profile''))"
  by (simp add: handle_browser_opening_def lower_chrome set_state_def Let_def
        split: launch.splits option.splits prod.splits)

section \<open>Opening a browser\<close>

text \<open>
  C1. A launch of Chrome that fails should leave the state \<open>IDLE\<close> and give a failed
  result. The handler does so when \<^verbatim>\<open>Popen\<close> raises (\<open>browser_opening_chrome_outcomes\<close>), but
  Chrome is started through a shell, and when the shell cannot start it \<^verbatim>\<open>Popen\<close> still
  returns a handle. Here Chrome does not come up, and the handler answers as if it had:
  with no profile it returns success with the question for a profile and state
  \<open>PROFILE_SELECTION\<close>; with the profile "work" it returns success and state
  \<open>BROWSER_READY\<close>.
\<close>

theorem chrome_not_started_reported_open:
  "fst (handle_browser_opening ''chrome'' None (Spawned 1 False) at_startup)
     = (True, ''Chrome is opening. Which profile? Say '' @ sq @ ''Profile 1'' @ sq
                @ '' or '' @ sq @ ''Amaan'' @ sq)
   \<and> state (fst (snd (handle_browser_opening ''chrome'' None (Spawned 1 False) at_startup)))
       = PROFILE_SELECTION
   \<and> fst (handle_browser_opening ''chrome'' (Some ''work'') (Spawned 1 False) at_startup)
       = (True, ''Chrome opened with work profile'')
   \<and> state (fst (snd (handle_browser_opening ''chrome'' (Some ''work'') (Spawned 1 False) at_startup)))
       = BROWSER_READY"
  by (simp add: handle_browser_opening_def lower_chrome truthy_def set_state_def at_startup_def
        Let_def)

section \<open>Selecting a profile\<close>

text \<open>
  C2. In every state other than \<open>PROFILE_SELECTION\<close>, and for every input,
  \<^verbatim>\<open>handle_profile_selection\<close> returns the failed result "Not in profile selection mode" and
  changes nothing: the manager and the world are as they were.
\<close>

theorem select_profile_outside_selection:
  assumes "state m \<noteq> PROFILE_SELECTION"
  shows "handle_profile_selection inp k l (m, w)
           = ((False, ''Not in profile selection mode''), m, w)"
  using assms by (simp add: handle_profile_selection_def)

theorem select_profile_outside_selection_witness:
  "state (fst at_startup) \<noteq> PROFILE_SELECTION
   \<and> handle_profile_selection ''work'' True (Spawned 7 True) at_startup
       = ((False, ''Not in profile selection mode''), at_startup)"
proof -
  have h: "state (fst at_startup) \<noteq> PROFILE_SELECTION"
    by (simp add: at_startup_idle)
  from select_profile_outside_selection [OF h, of "''work''" True "Spawned 7 True" "snd at_startup"] h
  show ?thesis by simp
qed



text \<open>
  C4, as the code has it. In state \<open>PROFILE_SELECTION\<close>, an input whose lower-cased and
  then stripped form is no key of the alias table gets a failed result and changes
  nothing, so the state is still \<open>PROFILE_SELECTION\<close> and the user may answer again. The
  message names the rejected input, in that form, and proposes 'Profile 1', 'Amaan' and
  'Profile 2', three of the ten aliases, each of which the table accepts.
\<close>

theorem select_profile_unmapped:
  assumes "state m = PROFILE_SELECTION"
    and "profile_map (strip (lower inp)) = None"
  shows "handle_profile_selection inp k l (m, w)
           = ((False,
               ''Unknown profile: '' @ strip (lower inp) @ ''. Try '' @ sq @ ''Profile 1'' @ sq
                 @ '', '' @ sq @ ''Amaan'' @ sq @ '', or '' @ sq @ ''Profile 2'' @ sq),
              m, w)
         \<and> state (fst (snd (handle_profile_selection inp k l (m, w)))) = PROFILE_SELECTION
         \<and> profile_map (strip (lower ''Profile 1'')) = Some ''Profile 1''
         \<and> profile_map (strip (lower ''Amaan'')) = Some ''Profile 1''
         \<and> profile_map (strip (lower ''Profile 2'')) = Some ''Profile 2''"
  using assms
  by (simp add: handle_profile_selection_def Let_def profile_map_def lower_def lower_char_def upper_letters_def lower_letters_def
        strip_def isspace_def)

theorem select_profile_unmapped_witness:
  "state (fst awaiting_profile) = PROFILE_SELECTION
   \<and> profile_map (strip (lower '' Guest '')) = None
   \<and> handle_profile_selection '' Guest '' True (Spawned 2 True) awaiting_profile
       = ((False,
           ''Unknown profile: guest. Try '' @ sq @ ''Profile 1'' @ sq
             @ '', '' @ sq @ ''Amaan'' @ sq @ '', or '' @ sq @ ''Profile 2'' @ sq),
          awaiting_profile)"
proof -
  have sl: "strip (lower '' Guest '') = ''guest''"
    by (simp add: lower_def lower_char_def upper_letters_def lower_letters_def strip_def isspace_def)
  have un: "profile_map (strip (lower '' Guest '')) = None"
    unfolding sl by (simp add: profile_map_def)
  from select_profile_unmapped [OF awaiting_profile_state un, of True "Spawned 2 True" "snd awaiting_profile"]
       awaiting_profile_state un sl
  show ?thesis by simp
qed

text \<open>
  An input that is no key of the table, in any letter case, can still be accepted: the
  handler strips it first. And the message of a rejection does not list all the aliases:
  "default" and "work" are not in it.
\<close>

theorem padded_alias_accepted:
  "profile_map '' work '' = None
   \<and> profile_map (lower '' work '') = None
   \<and> state (fst awaiting_profile) = PROFILE_SELECTION
   \<and> fst (handle_profile_selection '' work '' True (Spawned 2 True) awaiting_profile)
       = (True, ''Opened work profile. What would you like to do?'')
   \<and> state (fst (snd (handle_profile_selection '' work '' True (Spawned 2 True) awaiting_profile)))
       = BROWSER_READY
   \<and> \<not> fst (fst (handle_profile_selection ''guest'' True (Spawned 2 True) awaiting_profile))
   \<and> \<not> str_contains ''default''
          (lower (snd (fst (handle_profile_selection ''guest'' True (Spawned 2 True) awaiting_profile))))
   \<and> \<not> str_contains ''work''
          (lower (snd (fst (handle_profile_selection ''guest'' True (Spawned 2 True) awaiting_profile))))"
proof -
  have lw: "lower '' work '' = '' work ''" "lower ''guest'' = ''guest''"
    by (simp_all add: lower_def lower_char_def upper_letters_def lower_letters_def)
  have sw: "strip '' work '' = ''work''" "strip ''guest'' = ''guest''"
    by (simp_all add: strip_def isspace_def)
  have pm: "profile_map '' work '' = None" "profile_map ''work'' = Some ''Profile 2''"
           "profile_map ''guest'' = None"
    by (simp_all add: profile_map_def)
  have acc: "fst (handle_profile_selection '' work '' True (Spawned 2 True) awaiting_profile)
               = (True, ''Opened work profile. What would you like to do?'')
             \<and> state (fst (snd (handle_profile_selection '' work '' True (Spawned 2 True) awaiting_profile)))
               = BROWSER_READY"
    by (simp add: handle_profile_selection_def awaiting_profile_eq lw sw pm set_state_def Let_def)
  have msg: "fst (handle_profile_selection ''guest'' True (Spawned 2 True) awaiting_profile)
               = (False, ''Unknown profile: guest. Try '' @ sq @ ''Profile 1'' @ sq
                    @ '', '' @ sq @ ''Amaan'' @ sq @ '', or '' @ sq @ ''Profile 2'' @ sq)"
    by (simp add: handle_profile_selection_def awaiting_profile_eq lw sw pm Let_def)
  have no: "\<not> str_contains ''default''
              (lower (''Unknown profile: guest. Try '' @ sq @ ''Profile 1'' @ sq
                    @ '', '' @ sq @ ''Amaan'' @ sq @ '', or '' @ sq @ ''Profile 2'' @ sq))"
           "\<not> str_contains ''work''
              (lower (''Unknown profile: guest. Try '' @ sq @ ''Profile 1'' @ sq
                    @ '', '' @ sq @ ''Amaan'' @ sq @ '', or '' @ sq @ ''Profile 2'' @ sq))"
    by (simp_all add: sq_def lower_def lower_char_def upper_letters_def lower_letters_def)
  from acc msg no pm(1) lw(1) awaiting_profile_state show ?thesis by simp
qed

section \<open>Opening a website\<close>

text \<open>
  C5. \<^verbatim>\<open>handle_website_opening\<close> never changes the state. Called in state \<open>IDLE\<close> it
  succeeds, whatever tabs there are and so also with none. It fails exactly when the
  state is neither \<open>BROWSER_READY\<close> nor \<open>IDLE\<close> and no tab can be listed (there is no tab
  manager, or it returns the empty list), and then the message is "No browser is open.
  Say 'Open Chrome' first".
\<close>

theorem open_website_guard:
  "case handle_website_opening nm tabs (m, w) of
     ((ok, msg), m', w') \<Rightarrow>
       state m' = state m
       \<and> (state m = IDLE \<longrightarrow> ok)
       \<and> (\<not> ok \<longleftrightarrow>
            state m \<noteq> BROWSER_READY \<and> state m \<noteq> IDLE \<and> (\<not> tab_manager m \<or> tabs = []))
       \<and> (\<not> ok \<longrightarrow>
            msg = ''No browser is open. Say '' @ sq @ ''Open Chrome'' @ sq @ '' first'')"
  by (simp add: handle_website_opening_def Let_def)

theorem open_website_guard_witness:
  "state (fst at_startup) = IDLE
   \<and> fst (handle_website_opening ''youtube'' [] at_startup) = (True, ''Opening youtube'')
   \<and> state (fst (snd (handle_website_opening ''youtube'' [] at_startup))) = IDLE
   \<and> state (fst awaiting_profile) = PROFILE_SELECTION
   \<and> handle_website_opening ''youtube'' [] awaiting_profile
       = ((False, ''No browser is open. Say '' @ sq @ ''Open Chrome'' @ sq @ '' first''),
          awaiting_profile)"
proof -
  have a: "fst (handle_website_opening ''youtube'' [] at_startup) = (True, ''Opening youtube'')"
    by (simp add: handle_website_opening_def at_startup_def WorkflowManager_init_def Let_def)
  have b: "snd (handle_website_opening ''youtube'' [] awaiting_profile) = awaiting_profile"
    by (simp add: handle_website_opening_def awaiting_profile_eq)
  from open_website_guard [where nm = "''youtube''" and tabs = "[]"
                              and m = "fst at_startup" and w = "snd at_startup"]
       open_website_guard [where nm = "''youtube''" and tabs = "[]"
                              and m = "fst awaiting_profile" and w = "snd awaiting_profile"]
       a b at_startup_idle awaiting_profile_state
  show ?thesis by (auto split: prod.splits)
qed

section \<open>Searching\<close>

text \<open>
  C9. \<^verbatim>\<open>handle_search_query\<close> returns success for every query, platform and list of tabs,
  and leaves the manager as it was. It opens one address. With no platform given (and a
  tab manager present) the platform is the one inferred from the tabs in the order they
  are returned, the first title that contains "youtube" or "google" deciding. A platform
  "youtube", given or inferred, leads to the YouTube results address, everything else to
  the Google search address, and in both the query has each space replaced by a plus
  sign, its other characters kept in order.
\<close>

theorem run_search_always_succeeds:
  "handle_search_query q pf tabs (m, w)
     = ((True, ''Searching for '' @ q), m,
        emit (Webbrowser_open
               (if pf = Some ''youtube''
                   \<or> (truthy pf = None \<and> tab_manager m
                        \<and> inferred_platform tabs = Some ''youtube'')
                then ''https://www.youtube.com/results?search_query='' @ replace_space q
                else ''https://www.google.com/search?q='' @ replace_space q)) w)
   \<and> length (replace_space q) = length q
   \<and> CHR '' '' \<notin> set (replace_space q)
   \<and> filter (\<lambda>c. c \<noteq> CHR ''+'') (replace_space q)
       = filter (\<lambda>c. c \<noteq> CHR '' '' \<and> c \<noteq> CHR ''+'') q"
proof -
  have "handle_search_query q pf tabs (m, w)
     = ((True, ''Searching for '' @ q), m,
        emit (Webbrowser_open
               (if pf = Some ''youtube''
                   \<or> (truthy pf = None \<and> tab_manager m
                        \<and> inferred_platform tabs = Some ''youtube'')
                then ''https://www.youtube.com/results?search_query='' @ replace_space q
                else ''https://www.google.com/search?q='' @ replace_space q)) w)"
    unfolding handle_search_query_def Let_def prod.case search_platform ..
  then show ?thesis by (simp only: replace_space_facts simp_thms)
qed

theorem run_search_always_succeeds_witness:
  "handle_search_query ''cats videos'' None
     [\<lparr>title = ''Inbox'', window_id = ''0x1'', browser = ''firefox''\<rparr>,
      \<lparr>title = ''YouTube - Cats'', window_id = ''0x2'', browser = ''chrome''\<rparr>,
      \<lparr>title = ''Google'', window_id = ''0x3'', browser = ''chrome''\<rparr>]
     (WorkflowManager_init True, \<lparr>clock = 100, effects = []\<rparr>)
   = ((True, ''Searching for cats videos''), WorkflowManager_init True,
      \<lparr>clock = 100,
       effects = [Webbrowser_open ''https://www.youtube.com/results?search_query=cats+videos'']\<rparr>)"
  using run_search_always_succeeds [of "''cats videos''" None
     "[\<lparr>title = ''Inbox'', window_id = ''0x1'', browser = ''firefox''\<rparr>,
      \<lparr>title = ''YouTube - Cats'', window_id = ''0x2'', browser = ''chrome''\<rparr>,
      \<lparr>title = ''Google'', window_id = ''0x3'', browser = ''chrome''\<rparr>]"
     "WorkflowManager_init True" "\<lparr>clock = 100, effects = []\<rparr>"]
  by (simp add: inferred_platform_def truthy_def WorkflowManager_init_def emit_def
        replace_space_def lower_def lower_char_def upper_letters_def lower_letters_def)

section \<open>Cancelling\<close>

text \<open>
  C6. \<^verbatim>\<open>cancel_workflow\<close>, called in any state of the manager, leaves the state \<open>IDLE\<close>, the
  hint \<open>waiting_for\<close> empty and no active plan.
\<close>

theorem cancel_workflow_resets:
  "state (fst (cancel_workflow (m, w))) = IDLE
   \<and> waiting_for (fst (cancel_workflow (m, w))) = None
   \<and> current_workflow (fst (cancel_workflow (m, w))) = None"
  by (simp add: cancel_workflow_def)

section \<open>The hint follows the state\<close>

text \<open>
  C7. In every state the machine reaches from its construction by calls of its
  operations, with any answers of the operating system and any time passing between the
  calls, \<open>waiting_for\<close> is set when the state is \<open>PROFILE_SELECTION\<close> and is empty when the
  state is \<open>IDLE\<close>.
\<close>

theorem waiting_for_invariant:
  assumes "reachable s"
  shows "(state (fst s) = PROFILE_SELECTION \<longrightarrow> waiting_for (fst s) \<noteq> None)
       \<and> (state (fst s) = IDLE \<longrightarrow> waiting_for (fst s) = None)"
  using reachable_ok [OF assms] by (simp add: hint_ok_def)

theorem waiting_for_invariant_witness:
  "reachable awaiting_profile \<and> state (fst awaiting_profile) = PROFILE_SELECTION
   \<and> waiting_for (fst awaiting_profile) \<noteq> None
   \<and> reachable at_startup \<and> state (fst at_startup) = IDLE
   \<and> waiting_for (fst at_startup) = None"
  using waiting_for_invariant [OF reachable_awaiting_profile]
        waiting_for_invariant [OF reachable_at_startup]
        awaiting_profile_state at_startup_idle
        reachable_awaiting_profile reachable_at_startup
  by simp

section \<open>Expiry\<close>

text \<open>
  C8. \<^verbatim>\<open>is_state_expired\<close> only reads (\<open>is_state_expired_reads_only\<close>) and answers false right
  after \<^verbatim>\<open>set_state\<close> (\<open>fresh_after_set_state\<close>). But \<^verbatim>\<open>cancel_workflow\<close> assigns the state
  itself and records no entry time. A minute after Chrome was opened with no profile the
  state is \<open>PROFILE_SELECTION\<close>; \<^verbatim>\<open>cancel_workflow\<close> moves it to \<open>IDLE\<close> and no time passes;
  yet \<^verbatim>\<open>is_state_expired\<close> answers true, still measuring from the entry into
  \<open>PROFILE_SELECTION\<close>. Entering \<open>IDLE\<close> from the same moment through a failed launch, which
  goes through \<^verbatim>\<open>set_state\<close>, gives the answer false.
\<close>

theorem expired_right_after_cancel:
  "reachable stale_selection
   \<and> state (fst stale_selection) = PROFILE_SELECTION
   \<and> reachable (cancel_workflow stale_selection)
   \<and> state (fst (cancel_workflow stale_selection)) = IDLE
   \<and> clock (snd (cancel_workflow stale_selection)) = clock (snd stale_selection)
   \<and> fst (is_state_expired (cancel_workflow stale_selection))
   \<and> state (fst (step (Handle_profile_selection ''work'' True (Raised ''no shell''))
                    stale_selection)) = IDLE
   \<and> \<not> fst (is_state_expired
              (step (Handle_profile_selection ''work'' True (Raised ''no shell''))
                 stale_selection))"
proof -
  have "reachable (step Cancel_workflow stale_selection)"
    by (rule reachable.called [OF reachable_stale_selection])
  then have r: "reachable (cancel_workflow stale_selection)" by simp
  have c: "state (fst stale_selection) = PROFILE_SELECTION
   \<and> state (fst (cancel_workflow stale_selection)) = IDLE
   \<and> clock (snd (cancel_workflow stale_selection)) = clock (snd stale_selection)
   \<and> fst (is_state_expired (cancel_workflow stale_selection))"
    by (simp add: stale_selection_def awaiting_profile_eq cancel_workflow_def
          is_state_expired_def sleep_def)
  have f: "state (fst (step (Handle_profile_selection ''work'' True (Raised ''no shell''))
                    stale_selection)) = IDLE
   \<and> \<not> fst (is_state_expired
              (step (Handle_profile_selection ''work'' True (Raised ''no shell''))
                 stale_selection))"
    by (simp add: stale_selection_def awaiting_profile_eq handle_profile_selection_def
          lower_def lower_char_def upper_letters_def lower_letters_def strip_def isspace_def
          profile_map_def set_state_def is_state_expired_def emit_def sleep_def Let_def)
  from r reachable_stale_selection c f show ?thesis by blast
qed

section \<open>A profile the table does not know\<close>

text \<open>
  C10, as the code has it. For a profile whose lower-cased form is no key of the alias
  table, \<^verbatim>\<open>_get_chrome_profile\<close> answers "Default" and nothing is checked. When such a
  profile is not empty, is given to \<^verbatim>\<open>handle_browser_opening("chrome", profile)\<close> and
  \<^verbatim>\<open>Popen\<close> returns a handle, Chrome is launched on the directory "Default", the call
  returns success, the state is \<open>BROWSER_READY\<close> and the selected profile is the input as
  it came. In state \<open>PROFILE_SELECTION\<close>, \<^verbatim>\<open>handle_profile_selection\<close> rejects the same
  input, when it is unknown also after stripping, and changes nothing.
\<close>

theorem unknown_profile_falls_back:
  assumes "profile_map (lower p) = None"
  shows "get_chrome_profile p = ''Default''
     \<and> (p \<noteq> [] \<longrightarrow>
          (\<exists>m' w'. handle_browser_opening ''chrome'' (Some p) (Spawned h up) (m, w)
                     = ((True, ''Chrome opened with '' @ p @ '' profile''), m', w')
                   \<and> state m' = BROWSER_READY \<and> selected_profile m' = Some p
                   \<and> browser_process m' = Some h
                   \<and> effects w' = effects w @ [Popen_shell (chrome_cmd ''Default'')]))
     \<and> (state m = PROFILE_SELECTION \<and> profile_map (strip (lower p)) = None \<longrightarrow>
          fst (fst (handle_profile_selection p k l (m, w))) = False
          \<and> snd (handle_profile_selection p k l (m, w)) = (m, w))"
  using assms
  by (simp add: get_chrome_profile_def handle_browser_opening_def handle_profile_selection_def
        lower_chrome truthy_def set_state_def emit_def sleep_def Let_def)

theorem unknown_profile_falls_back_witness:
  "profile_map (lower ''Guest'') = None
   \<and> get_chrome_profile ''Guest'' = ''Default''
   \<and> fst (handle_browser_opening ''chrome'' (Some ''Guest'') (Spawned 1 True) at_startup)
       = (True, ''Chrome opened with Guest profile'')
   \<and> state (fst (snd (handle_browser_opening ''chrome'' (Some ''Guest'') (Spawned 1 True) at_startup)))
       = BROWSER_READY
   \<and> selected_profile (fst (snd (handle_browser_opening ''chrome'' (Some ''Guest'') (Spawned 1 True) at_startup)))
       = Some ''Guest''
   \<and> effects (snd (snd (handle_browser_opening ''chrome'' (Some ''Guest'') (Spawned 1 True) at_startup)))
       = [Popen_shell (chrome_cmd ''Default'')]
   \<and> fst (fst (handle_profile_selection ''Guest'' True (Spawned 2 True) awaiting_profile)) = False
   \<and> snd (handle_profile_selection ''Guest'' True (Spawned 2 True) awaiting_profile) = awaiting_profile"
proof -
  have lw: "lower ''Guest'' = ''guest''" by (simp add: lower_def lower_char_def upper_letters_def lower_letters_def)
  have un: "profile_map (lower ''Guest'') = None" unfolding lw by (simp add: profile_map_def)
  have us: "profile_map (strip (lower ''Guest'')) = None"
    unfolding lw by (simp add: profile_map_def strip_def isspace_def)
  have ef: "effects (snd at_startup) = []" by (simp add: at_startup_def)
  note f = unknown_profile_falls_back [OF un, where h = 1 and up = True
         and m = "fst at_startup" and w = "snd at_startup" and k = True and l = "Spawned 2 True"]
  from f have g: "get_chrome_profile ''Guest'' = ''Default''" by simp
  from f obtain m' w' where
    r: "handle_browser_opening ''chrome'' (Some ''Guest'') (Spawned 1 True) at_startup
          = ((True, ''Chrome opened with Guest profile''), m', w')"
       "state m' = BROWSER_READY" "selected_profile m' = Some ''Guest''"
       "effects w' = effects (snd at_startup) @ [Popen_shell (chrome_cmd ''Default'')]"
    by auto
  from unknown_profile_falls_back [OF un, where h = 1 and up = True
         and m = "fst awaiting_profile" and w = "snd awaiting_profile" and k = True
         and l = "Spawned 2 True"] awaiting_profile_state us
  have s: "fst (fst (handle_profile_selection ''Guest'' True (Spawned 2 True) awaiting_profile)) = False"
          "snd (handle_profile_selection ''Guest'' True (Spawned 2 True) awaiting_profile) = awaiting_profile"
    by simp_all
  from r s g un ef show ?thesis by simp
qed

text \<open>
  The empty string is no key of the table either, but the test \<^verbatim>\<open>if profile:\<close> takes it
  for no profile: Chrome is started with no profile directory, the state is
  \<open>PROFILE_SELECTION\<close> and no profile is stored.
\<close>

theorem empty_profile_not_stored:
  "profile_map (lower []) = None
   \<and> fst (fst (handle_browser_opening ''chrome'' (Some []) (Spawned 1 True) at_startup))
   \<and> state (fst (snd (handle_browser_opening ''chrome'' (Some []) (Spawned 1 True) at_startup)))
       = PROFILE_SELECTION
   \<and> selected_profile
        (fst (snd (handle_browser_opening ''chrome'' (Some []) (Spawned 1 True) at_startup)))
       = None
   \<and> effects (snd (snd (handle_browser_opening ''chrome'' (Some []) (Spawned 1 True) at_startup)))
       = [Popen_shell ''google-chrome'']"
proof -
  have "lower [] = []" by (simp add: lower_def)
  then have "profile_map (lower []) = None" by (simp add: profile_map_def)
  then show ?thesis
    by (simp add: handle_browser_opening_def lower_chrome truthy_def set_state_def
          at_startup_def WorkflowManager_init_def emit_def sleep_def Let_def)
qed

end
